theory Spec2Isabelle
  imports Complex_Main "HOL-Library.Word"
begin

unbundle bit_operations_syntax

section \<open>Values of the program\<close>

text \<open>
  The program is \<^verbatim>\<open>main\<close> of \<^verbatim>\<open>main_3d3dRegistration.cpp\<close>. Its \<^verbatim>\<open>float\<close> options and the
  \<^verbatim>\<open>double\<close> coefficients of the estimated \<^verbatim>\<open>Eigen::Matrix4d\<close> are kept as their IEEE-754
  bit patterns, so that "is a not-a-number" is a property of the bits and nothing is
  rounded by the model.
\<close>

type_synonym float = "32 word"
type_synonym double = "64 word"

text \<open>
  The rational value of a single-precision pattern: sign bit 31, biased exponent in bits
  30..23, fraction in bits 22..0. Infinities and not-a-numbers (exponent 255) have none.
\<close>

definition float_value :: "float \<Rightarrow> rat option" where
  "float_value w =
     (let e = unat (drop_bit 23 w AND 0xFF);
          m = unat (w AND 0x7FFFFF);
          s = (if bit w 31 then - 1 else 1)
      in if e = 255 then None
         else if e = 0 then Some (s * of_nat m / 2 ^ 149)
         else if 150 \<le> e then Some (s * of_nat (2 ^ 23 + m) * 2 ^ (e - 150))
         else Some (s * of_nat (2 ^ 23 + m) / 2 ^ (150 - e)))"

text \<open>The literals \<^verbatim>\<open>1.f\<close> and \<^verbatim>\<open>0.1f\<close> of lines 46-49, as the compiler stores them.\<close>

definition literal_1f :: float where
  "literal_1f = 0x3F800000"

definition literal_0_1f :: float where
  "literal_0_1f = 0x3DCCCCCD"

text \<open>
  A double is a not-a-number when its exponent field (bits 62..52) is all ones and its
  fraction is not zero. \<^verbatim>\<open>==\<close> on doubles is false as soon as one side is a not-a-number,
  and identifies the two zeros.
\<close>

definition isNaN :: "double \<Rightarrow> bool" where
  "isNaN d \<longleftrightarrow> drop_bit 52 d AND 0x7FF = 0x7FF \<and> d AND 0xFFFFFFFFFFFFF \<noteq> 0"

definition double_eq :: "double \<Rightarrow> double \<Rightarrow> bool" where
  "double_eq a b \<longleftrightarrow>
     \<not> isNaN a \<and> \<not> isNaN b \<and>
     (a = b \<or> (a AND 0x7FFFFFFFFFFFFFFF = 0 \<and> b AND 0x7FFFFFFFFFFFFFFF = 0))"

text \<open>
  \<^verbatim>\<open>Eigen::Matrix4d\<close> by the list of its coefficients. Eigen's \<^verbatim>\<open>hasNaN()\<close> is
  \<^verbatim>\<open>!((array() == array()).all())\<close>: some coefficient differs from itself.
\<close>

type_synonym Matrix4d = "double list"

definition hasNaN :: "Matrix4d \<Rightarrow> bool" where
  "hasNaN T \<longleftrightarrow> \<not> list_all (\<lambda>x. double_eq x x) T"

text \<open>
  \<^verbatim>\<open>EXIT_SUCCESS\<close> and \<^verbatim>\<open>EXIT_FAILURE\<close> of \<^verbatim>\<open><cstdlib>\<close>, with the values they have on the
  platforms the program is built for. The status of a run is the \<^verbatim>\<open>int\<close> that \<^verbatim>\<open>main\<close>
  returns.
\<close>

definition EXIT_SUCCESS :: int where
  "EXIT_SUCCESS = 0"

definition EXIT_FAILURE :: int where
  "EXIT_FAILURE = 1"

section \<open>The command line\<close>

text \<open>
  What \<^verbatim>\<open>po::store(po::parse_command_line(argc, argv, allParams), vm)\<close> leaves in \<^verbatim>\<open>vm\<close>
  for the options given on the command line, already converted to the type of the option
  (\<open>None\<close>: the option was not given). The names are those declared at lines 38-73;
  no option called \<^verbatim>\<open>help\<close> is declared.
\<close>

record supplied =
  sourceFile_arg :: "string option"
  targetFile_arg :: "string option"
  outputFile_arg :: "string option"
  method_arg :: "string option"
  scaleRatio_arg :: "float option"
  sourceMeasurement_arg :: "float option"
  targetMeasurement_arg :: "float option"
  voxelSize_arg :: "float option"
  showTimeline_arg :: "bool option"
  verboseLevel_arg :: "string option"

definition nothing_supplied :: supplied where
  "nothing_supplied =
     \<lparr>sourceFile_arg = None, targetFile_arg = None, outputFile_arg = None,
      method_arg = None, scaleRatio_arg = None, sourceMeasurement_arg = None,
      targetMeasurement_arg = None, voxelSize_arg = None, showTimeline_arg = None,
      verboseLevel_arg = None\<rparr>"

text \<open>
  The two exception classes that \<^verbatim>\<open>main\<close> catches, each with the text of \<^verbatim>\<open>what()\<close>:
  \<^verbatim>\<open>required_option\<close> is thrown by \<^verbatim>\<open>po::notify\<close>, every other \<^verbatim>\<open>po::error\<close> (unknown
  option, value that does not convert, option given twice) by parsing and storing.
\<close>

datatype po_error = required_option string | error string

text \<open>The local variables of \<^verbatim>\<open>main\<close> that the options are bound to (lines 28, 35, 44-50, 69).\<close>

record variables =
  alignmentMethodName :: string
  sourceFile :: string
  targetFile :: string
  outputFile :: string
  sourceMeasurement :: float
  targetMeasurement :: float
  scaleRatio :: float
  voxelSize :: float
  showTimeline :: bool
  verboseLevel :: string

section \<open>What the program does: output and calls\<close>

datatype stream = COUT | CERR | LOG_INFO | LOG_WARNING

text \<open>The operands of one \<^verbatim>\<open><<\<close> chain.\<close>

datatype piece =
    Str string
  | AllParams
  | What po_error
  | Vm supplied
  | Mat Matrix4d
  | Rotation Matrix4d
  | Translation Matrix4d

text \<open>
  One observable step of a run: a line written to a stream, or a call of a method of the
  \<^verbatim>\<open>PointcloudRegistration\<close> object with its arguments and, for the methods that return
  one, the value returned.
\<close>

datatype 'm event =
    Print stream "piece list"
  | Call_loadSourceCloud string int
  | Call_loadTargetCloud string int
  | Call_setScaleRatio float
  | Call_setTargetMeasurement float
  | Call_setSourceMeasurement float
  | Call_setVoxelSize float
  | Call_align 'm Matrix4d
  | Call_showTimeline string
  | Call_tranformAndSaveCloud string Matrix4d string int

text \<open>
  How \<^verbatim>\<open>main\<close> ends: it returns a status, or an exception leaves it uncaught (the
  \<^verbatim>\<open>try\<close> block closes at line 100) and the process is terminated without one.
\<close>

datatype outcome = Return int | Uncaught_exception

section \<open>The collaborators outside the file\<close>

text \<open>
  \<^verbatim>\<open>main\<close> is the only function of the file. Everything it calls is declared elsewhere
  (\<^verbatim>\<open>PointcloudRegistration.hpp\<close>, boost, the logger) and is a parameter here: \<open>'s\<close> is
  the state of the \<^verbatim>\<open>PointcloudRegistration\<close> object, \<open>'m\<close> the enumeration
  \<^verbatim>\<open>EAlignmentMethod\<close>. A method that changes the object returns the new state.
  \<^item> \<open>parse_tokens\<close>: boost's parser and \<^verbatim>\<open>po::store\<close> on the arguments after
    \<^verbatim>\<open>argv[0]\<close>, for the options \<^verbatim>\<open>allParams\<close> declares;
  \<^item> \<open>stringToEnum\<close>: \<^verbatim>\<open>EAlignmentMethod_stringToEnum\<close>, \<open>None\<close> where it throws;
  \<^item> \<open>timeline_report\<close>: the text of the recorded stage durations.
\<close>

record ('s, 'm) collaborators =
  parse_tokens :: "string list \<Rightarrow> po_error + supplied"
  GICP :: 'm
  enumToString :: "'m \<Rightarrow> string"
  stringToEnum :: "string \<Rightarrow> 'm option"
  defaultVerboseLevel :: string
  new_registration :: 's
  loadSourceCloud :: "string \<Rightarrow> 's \<Rightarrow> int \<times> 's"
  loadTargetCloud :: "string \<Rightarrow> 's \<Rightarrow> int \<times> 's"
  setScaleRatio :: "float \<Rightarrow> 's \<Rightarrow> 's"
  setTargetMeasurement :: "float \<Rightarrow> 's \<Rightarrow> 's"
  setSourceMeasurement :: "float \<Rightarrow> 's \<Rightarrow> 's"
  setVoxelSize :: "float \<Rightarrow> 's \<Rightarrow> 's"
  align :: "'m \<Rightarrow> 's \<Rightarrow> Matrix4d \<times> 's"
  timeline_report :: "'s \<Rightarrow> string"
  tranformAndSaveCloud :: "string \<Rightarrow> Matrix4d \<Rightarrow> string \<Rightarrow> 's \<Rightarrow> int"

text \<open>
  Modelled from the spec: \<^verbatim>\<open>PointcloudRegistration::showTimeline\<close> is not in the file.
  Section 4.5 of the specification gives it: it "produces a human-readable ordered report
  of all entries" and "has no effect on the returned alignment result". So it returns the
  report and the object unchanged.
\<close>

definition PointcloudRegistration_showTimeline ::
    "('s, 'm) collaborators \<Rightarrow> 's \<Rightarrow> string \<times> 's" where
  "PointcloudRegistration_showTimeline c reg = (timeline_report c reg, reg)"

section \<open>main\<close>

text \<open>
  \<^verbatim>\<open>po::parse_command_line\<close> and \<^verbatim>\<open>po::store\<close> (line 80). With no argument after the
  program name there is nothing to parse: no option is stored and nothing is thrown.
\<close>

definition parse_command_line ::
    "('s, 'm) collaborators \<Rightarrow> string list \<Rightarrow> po_error + supplied" where
  "parse_command_line c argv =
     (if length argv \<le> 1 then Inr nothing_supplied else parse_tokens c (tl argv))"

text \<open>
  \<^verbatim>\<open>vm.count(name)\<close> after line 80: 1 for an option that was given or that has a
  \<^verbatim>\<open>default_value\<close>, 0 otherwise, also for a name that is not declared.
\<close>

definition vm_count :: "supplied \<Rightarrow> string \<Rightarrow> nat" where
  "vm_count vm name =
     (if name = ''sourceFile'' then (case sourceFile_arg vm of None \<Rightarrow> 0 | Some _ \<Rightarrow> 1)
      else if name = ''targetFile'' then (case targetFile_arg vm of None \<Rightarrow> 0 | Some _ \<Rightarrow> 1)
      else if name = ''outputFile'' then (case outputFile_arg vm of None \<Rightarrow> 0 | Some _ \<Rightarrow> 1)
      else if name \<in> set [''method'', ''scaleRatio'', ''sourceMeasurement'',
                ''targetMeasurement'', ''voxelSize'', ''showTimeline'', ''verboseLevel'']
        then 1
      else 0)"

text \<open>The variables as initialised at lines 28, 35, 44-50 and 69.\<close>

definition initial_variables :: "('s, 'm) collaborators \<Rightarrow> variables" where
  "initial_variables c =
     \<lparr>alignmentMethodName = enumToString c (GICP c),
      sourceFile = [], targetFile = [], outputFile = [],
      sourceMeasurement = literal_1f,
      targetMeasurement = literal_1f,
      scaleRatio = literal_1f,
      voxelSize = literal_0_1f,
      showTimeline = True,
      verboseLevel = defaultVerboseLevel c\<rparr>"

text \<open>
  \<^verbatim>\<open>po::notify(vm)\<close> (line 87): a required option that is missing throws
  \<^verbatim>\<open>required_option\<close>; otherwise every option is written to its variable, the value given
  or else the \<^verbatim>\<open>default_value\<close>, which is the variable's initial value.
  \<^verbatim>\<open>outputFile\<close> has no default and keeps its initial value, the empty string.
\<close>

definition notify :: "('s, 'm) collaborators \<Rightarrow> supplied \<Rightarrow> po_error + variables" where
  "notify c vm =
     (let v0 = initial_variables c in
      case sourceFile_arg vm of
        None \<Rightarrow> Inl (required_option ''sourceFile'')
      | Some s \<Rightarrow>
     (case targetFile_arg vm of
        None \<Rightarrow> Inl (required_option ''targetFile'')
      | Some t \<Rightarrow>
          Inr \<lparr>alignmentMethodName = (case method_arg vm of None \<Rightarrow> alignmentMethodName v0 | Some x \<Rightarrow> x),
               sourceFile = s,
               targetFile = t,
               outputFile = (case outputFile_arg vm of None \<Rightarrow> outputFile v0 | Some x \<Rightarrow> x),
               sourceMeasurement =
                 (case sourceMeasurement_arg vm of None \<Rightarrow> sourceMeasurement v0 | Some x \<Rightarrow> x),
               targetMeasurement =
                 (case targetMeasurement_arg vm of None \<Rightarrow> targetMeasurement v0 | Some x \<Rightarrow> x),
               scaleRatio = (case scaleRatio_arg vm of None \<Rightarrow> scaleRatio v0 | Some x \<Rightarrow> x),
               voxelSize = (case voxelSize_arg vm of None \<Rightarrow> voxelSize v0 | Some x \<Rightarrow> x),
               showTimeline = (case showTimeline_arg vm of None \<Rightarrow> showTimeline v0 | Some x \<Rightarrow> x),
               verboseLevel = (case verboseLevel_arg vm of None \<Rightarrow> verboseLevel v0 | Some x \<Rightarrow> x)\<rparr>))"

text \<open>The body of both \<^verbatim>\<open>catch\<close> clauses (lines 89-100).\<close>

definition usage_error :: "po_error \<Rightarrow> 'm event list" where
  "usage_error e =
     [Print CERR [Str ''ERROR: '', What e],
      Print COUT [Str (''Usage:'' @ [CHR 0x0A, CHR 0x0A]), AllParams]]"

text \<open>
  Lines 28-100, the \<^verbatim>\<open>try\<close> block and its handlers: either \<^verbatim>\<open>main\<close> returns there
  (\<open>Stop\<close>), or it goes on to line 102 with the variables set (\<open>Parsed\<close>).
\<close>

datatype 'm options_result = Stop "'m event list" int | Parsed supplied variables

definition main_options ::
    "('s, 'm) collaborators \<Rightarrow> string list \<Rightarrow> 'm options_result" where
  "main_options c argv =
     (case parse_command_line c argv of
        Inl e \<Rightarrow> Stop (usage_error e) EXIT_FAILURE
      | Inr vm \<Rightarrow>
          if vm_count vm ''help'' \<noteq> 0 \<or> length argv = 1
          then Stop [Print COUT [AllParams]] EXIT_SUCCESS
          else (case notify c vm of
                  Inl e \<Rightarrow> Stop (usage_error e) EXIT_FAILURE
                | Inr v \<Rightarrow> Parsed vm v))"

text \<open>
  Lines 128-158, once both clouds are loaded: the four setters, \<^verbatim>\<open>align\<close>, the
  not-a-number test, the timeline, the export.
\<close>

definition main_align ::
    "('s, 'm) collaborators \<Rightarrow> variables \<Rightarrow> 'm \<Rightarrow> 's \<Rightarrow> 'm event list \<times> outcome" where
  "main_align c v method reg0 =
     (let reg1 = setScaleRatio c (scaleRatio v) reg0;
          reg2 = setTargetMeasurement c (targetMeasurement v) reg1;
          reg3 = setSourceMeasurement c (sourceMeasurement v) reg2;
          reg4 = setVoxelSize c (voxelSize v) reg3;
          (T, reg5) = align c method reg4;
          tr =
            [Call_setScaleRatio (scaleRatio v),
             Call_setTargetMeasurement (targetMeasurement v),
             Call_setSourceMeasurement (sourceMeasurement v),
             Call_setVoxelSize (voxelSize v),
             Print LOG_INFO [Str ''Start alignment''],
             Call_align method T,
             Print LOG_WARNING [Str (''Alignment transform estimated:'' @ [CHR 0x0A]), Mat T],
             Print LOG_WARNING
               [Str (''Alignment transform rotation:'' @ [CHR 0x0A]), Rotation T],
             Print LOG_WARNING
               [Str (''Alignment transform translation:'' @ [CHR 0x0A]), Translation T]]
      in if hasNaN T
         then (tr @ [Print CERR [Str ''3D3DRegistration failed. Final matrix contains NaN.'']],
               Return EXIT_FAILURE)
         else
           let (shown, reg6) =
                 (if showTimeline v
                  then (let (report, r) = PointcloudRegistration_showTimeline c reg5
                        in ([Call_showTimeline report], r))
                  else ([], reg5))
           in if outputFile v = []
              then (tr @ shown @ [Print CERR [Str ''Output file empty, nothing to export.'']],
                    Return EXIT_SUCCESS)
              else
                let rc = tranformAndSaveCloud c (sourceFile v) T (outputFile v) reg6
                in (tr @ shown @
                    [Call_tranformAndSaveCloud (sourceFile v) T (outputFile v) rc],
                    Return rc))"

text \<open>Lines 102-126: the method name is resolved and the two clouds are loaded.\<close>

definition main_load ::
    "('s, 'm) collaborators \<Rightarrow> supplied \<Rightarrow> variables \<Rightarrow> 'm event list \<times> outcome" where
  "main_load c vm v =
     (let tr0 =
            [Print COUT [Str ''Program called with the following parameters:''],
             Print COUT [Vm vm]]
      in case stringToEnum c (alignmentMethodName v) of
           None \<Rightarrow> (tr0, Uncaught_exception)
         | Some method \<Rightarrow>
             let tr1 = tr0 @
                   [Print COUT [Str ''Alignment Method: '', Str (enumToString c method)],
                    Print COUT [Str ''Create PointcloudRegistration'']];
                 (rc_s, reg_s) = loadSourceCloud c (sourceFile v) (new_registration c);
                 tr2 = tr1 @ [Call_loadSourceCloud (sourceFile v) rc_s]
             in if rc_s = EXIT_FAILURE
                then (tr2 @ [Print CERR [Str ''Failed to load source cloud: '',
                                         Str (sourceFile v)]],
                      Return EXIT_FAILURE)
                else
                  let (rc_t, reg_t) = loadTargetCloud c (targetFile v) reg_s;
                      tr3 = tr2 @ [Call_loadTargetCloud (targetFile v) rc_t]
                  in if rc_t = EXIT_FAILURE
                     then (tr3 @ [Print CERR [Str ''Failed to load target cloud: '',
                                              Str (targetFile v)]],
                           Return EXIT_FAILURE)
                     else
                       let (tr4, out) = main_align c v method reg_t
                       in (tr3 @ [Print LOG_INFO [Str ''Point clouds loaded.'']] @ tr4,
                           out))"

text \<open>\<^verbatim>\<open>int main(int argc, char** argv)\<close>: \<open>argv\<close> is the list of its \<open>argc\<close> strings.\<close>

definition main :: "('s, 'm) collaborators \<Rightarrow> string list \<Rightarrow> 'm event list \<times> outcome" where
  "main c argv =
     (case main_options c argv of
        Stop tr rc \<Rightarrow> (tr, Return rc)
      | Parsed vm v \<Rightarrow> main_load c vm v)"

section \<open>Observations on a run\<close>

text \<open>
  The calls made on the registration object other than \<^verbatim>\<open>showTimeline\<close>, in order, with
  their arguments and results: what a run does apart from what it prints.
\<close>

fun is_registration_call :: "'m event \<Rightarrow> bool" where
  "is_registration_call (Print s ps) = False"
| "is_registration_call (Call_showTimeline report) = False"
| "is_registration_call e = True"

definition registration_calls :: "'m event list \<Rightarrow> 'm event list" where
  "registration_calls tr = filter is_registration_call tr"

text \<open>
  The events that can precede the first setter: output, and a load that did not return
  \<^verbatim>\<open>EXIT_FAILURE\<close>.
\<close>

fun before_align :: "'m event \<Rightarrow> bool" where
  "before_align (Print s ps) = True"
| "before_align (Call_loadSourceCloud f rc) = (rc \<noteq> EXIT_FAILURE)"
| "before_align (Call_loadTargetCloud f rc) = (rc \<noteq> EXIT_FAILURE)"
| "before_align e = False"

section \<open>A small instance of the collaborators\<close>

text \<open>
  A concrete parser and registration object on which the program can be run: the parser
  knows \<^verbatim>\<open>-s\<close>, \<^verbatim>\<open>-t\<close>, \<^verbatim>\<open>-o\<close>, \<^verbatim>\<open>-m\<close> and \<^verbatim>\<open>--showTimeline\<close>, each followed by its value; the
  object remembers the files it loaded, fails to load \<^verbatim>\<open>missing.ply\<close>, estimates a
  transform with a not-a-number coefficient when \<^verbatim>\<open>flat.ply\<close> was loaded and the identity
  otherwise, and cannot write \<^verbatim>\<open>locked.ply\<close>.
\<close>

fun sample_tokens :: "string list \<Rightarrow> supplied \<Rightarrow> po_error + supplied" where
  "sample_tokens (k # x # r) acc =
     (if k = ''-s'' then sample_tokens r (acc\<lparr>sourceFile_arg := Some x\<rparr>)
      else if k = ''-t'' then sample_tokens r (acc\<lparr>targetFile_arg := Some x\<rparr>)
      else if k = ''-o'' then sample_tokens r (acc\<lparr>outputFile_arg := Some x\<rparr>)
      else if k = ''-m'' then sample_tokens r (acc\<lparr>method_arg := Some x\<rparr>)
      else if k = ''--showTimeline'' then
        (if x = ''1'' then sample_tokens r (acc\<lparr>showTimeline_arg := Some True\<rparr>)
         else if x = ''0'' then sample_tokens r (acc\<lparr>showTimeline_arg := Some False\<rparr>)
         else Inl (error ''the argument for option --showTimeline is invalid''))
      else Inl (error ''unrecognised option''))"
| "sample_tokens [k] acc = Inl (error ''the required argument is missing'')"
| "sample_tokens [] acc = Inr acc"

definition identity4 :: Matrix4d where
  "identity4 =
     [0x3FF0000000000000, 0, 0, 0,
      0, 0x3FF0000000000000, 0, 0,
      0, 0, 0x3FF0000000000000, 0,
      0, 0, 0, 0x3FF0000000000000]"

definition degenerate4 :: Matrix4d where
  "degenerate4 =
     [0x3FF0000000000000, 0, 0, 0,
      0, 0x7FF8000000000000, 0, 0,
      0, 0, 0x3FF0000000000000, 0,
      0, 0, 0, 0x3FF0000000000000]"

definition sample :: "(string list, nat) collaborators" where
  "sample =
     \<lparr>parse_tokens = (\<lambda>toks. sample_tokens toks nothing_supplied),
      GICP = 0,
      enumToString = (\<lambda>m. if m = 0 then ''GICP'' else ''ICP''),
      stringToEnum =
        (\<lambda>s. if s = ''GICP'' then Some 0 else if s = ''ICP'' then Some 1 else None),
      defaultVerboseLevel = ''info'',
      new_registration = [],
      loadSourceCloud =
        (\<lambda>f reg. (if f = ''missing.ply'' then EXIT_FAILURE else EXIT_SUCCESS, f # reg)),
      loadTargetCloud =
        (\<lambda>f reg. (if f = ''missing.ply'' then EXIT_FAILURE else EXIT_SUCCESS, f # reg)),
      setScaleRatio = (\<lambda>x reg. reg),
      setTargetMeasurement = (\<lambda>x reg. reg),
      setSourceMeasurement = (\<lambda>x reg. reg),
      setVoxelSize = (\<lambda>x reg. reg),
      align = (\<lambda>m reg. (if ''flat.ply'' \<in> set reg then degenerate4 else identity4, reg)),
      timeline_report = (\<lambda>reg. ''load, align''),
      tranformAndSaveCloud =
        (\<lambda>src T out reg. if out = ''locked.ply'' then EXIT_FAILURE else EXIT_SUCCESS)\<rparr>"

definition argv_plain :: "string list" where
  "argv_plain = [''3d3dRegistration'', ''-s'', ''a.ply'', ''-t'', ''b.ply'']"

definition argv_missing :: "string list" where
  "argv_missing = [''3d3dRegistration'', ''-s'', ''missing.ply'', ''-t'', ''b.ply'']"

definition argv_flat :: "string list" where
  "argv_flat =
     [''3d3dRegistration'', ''-s'', ''flat.ply'', ''-t'', ''b.ply'', ''-o'', ''out.ply'']"

definition argv_flat_timeline :: "string list" where
  "argv_flat_timeline =
     [''3d3dRegistration'', ''-s'', ''flat.ply'', ''-t'', ''b.ply'', ''--showTimeline'', ''1'']"

definition argv_locked :: "string list" where
  "argv_locked =
     [''3d3dRegistration'', ''-s'', ''a.ply'', ''-t'', ''b.ply'', ''-o'', ''locked.ply'']"

definition argv_locked_quiet :: "string list" where
  "argv_locked_quiet =
     [''3d3dRegistration'', ''-s'', ''a.ply'', ''-t'', ''b.ply'', ''-o'', ''locked.ply'',
      ''--showTimeline'', ''0'']"

definition variables_plain :: variables where
  "variables_plain =
     \<lparr>alignmentMethodName = ''GICP'', sourceFile = ''a.ply'', targetFile = ''b.ply'',
      outputFile = [], sourceMeasurement = literal_1f, targetMeasurement = literal_1f,
      scaleRatio = literal_1f, voxelSize = literal_0_1f, showTimeline = True,
      verboseLevel = ''info''\<rparr>"

definition supplied_plain :: supplied where
  "supplied_plain =
     nothing_supplied\<lparr>sourceFile_arg := Some ''a.ply'', targetFile_arg := Some ''b.ply''\<rparr>"

section \<open>Parts of the registration that are not in the file\<close>

text \<open>
  \<^verbatim>\<open>main\<close> hands the scale ratio, the two measurements and the voxel size to the
  \<^verbatim>\<open>PointcloudRegistration\<close> object (lines 128-131), always all four, given or default.
  What the object does with them is not in the file; the two functions below follow
  sections 4.2 and 4.3 of the specification, over exact rational coordinates.
\<close>

datatype ConfigError = InvalidMeasurement | InvalidVoxelSize





text \<open>
  Modelled from the spec: the voxel downsampler is not in the file. Section 4.3: "partition
  3D space into a regular grid of cubes of edge \<^verbatim>\<open>voxelSize\<close>; every input point maps to
  exactly one voxel (via floor-divide of each coordinate by voxelSize); all points falling
  in the same voxel are replaced by their centroid. [...] \<^verbatim>\<open>voxelSize <= 0\<close> fails with
  \<^verbatim>\<open>ConfigError::InvalidVoxelSize\<close>." The order of the output is left open by the
  specification; here the voxels come in the order of their last point.
\<close>

type_synonym point = "rat \<times> rat \<times> rat"
type_synonym PointCloud = "point list"
type_synonym voxel = "int \<times> int \<times> int"

fun voxel_of :: "rat \<Rightarrow> point \<Rightarrow> voxel" where
  "voxel_of V (x, y, z) = (\<lfloor>x / V\<rfloor>, \<lfloor>y / V\<rfloor>, \<lfloor>z / V\<rfloor>)"

definition mean :: "rat list \<Rightarrow> rat" where
  "mean xs = sum_list xs / of_nat (length xs)"

definition centroid :: "PointCloud \<Rightarrow> point" where
  "centroid ps =
     (mean (map fst ps), mean (map (\<lambda>p. fst (snd p)) ps), mean (map (\<lambda>p. snd (snd p)) ps))"

text \<open>The input points that fall in voxel \<open>k\<close>: the points contributing to its centroid.\<close>

definition voxel_points :: "rat \<Rightarrow> PointCloud \<Rightarrow> voxel \<Rightarrow> PointCloud" where
  "voxel_points V cloud k = filter (\<lambda>p. voxel_of V p = k) cloud"

definition downsample :: "PointCloud \<Rightarrow> rat \<Rightarrow> ConfigError + PointCloud" where
  "downsample cloud V =
     (if V \<le> 0 then Inl InvalidVoxelSize
      else Inr (map (\<lambda>k. centroid (voxel_points V cloud k))
                    (remdups (map (voxel_of V) cloud))))"

text \<open>Two points less than one voxel edge apart along every axis.\<close>

fun within_one_voxel :: "rat \<Rightarrow> point \<Rightarrow> point \<Rightarrow> bool" where
  "within_one_voxel V (qx, qy, qz) (px, py, pz) \<longleftrightarrow>
     \<bar>qx - px\<bar> < V \<and> \<bar>qy - py\<bar> < V \<and> \<bar>qz - pz\<bar> < V"

definition sample_cloud :: PointCloud where
  "sample_cloud = [(0, 0, 0), (1 / 20, 1 / 20, 3 / 40), (1, 1, 1), (- (1 / 20), 0, 0)]"

section \<open>Lemmas on the model\<close>

lemma hasNaN_iff: "hasNaN T \<longleftrightarrow> (\<exists>x\<in>set T. isNaN x)"
  by (auto simp: hasNaN_def double_eq_def list_all_iff)

lemma hasNaN_degenerate4: "hasNaN degenerate4"
  by (simp add: hasNaN_iff degenerate4_def isNaN_def)

lemma not_hasNaN_identity4: "\<not> hasNaN identity4"
  by (simp add: hasNaN_iff identity4_def isNaN_def)

lemmas sample_run =
  main_def main_load_def main_align_def main_options_def usage_error_def
  PointcloudRegistration_showTimeline_def Let_def sample_def parse_command_line_def
  nothing_supplied_def notify_def initial_variables_def vm_count_def
  EXIT_FAILURE_def EXIT_SUCCESS_def hasNaN_degenerate4 not_hasNaN_identity4

lemma literal_1f_value: "float_value literal_1f = Some 1"
  by (simp add: float_value_def literal_1f_def)

lemma literal_0_1f_value: "float_value literal_0_1f = Some (13421773 / 134217728)"
  by (simp add: float_value_def literal_0_1f_def)

subsection \<open>Options\<close>

lemma main_options_Parsed:
  assumes "main_options c argv = Parsed vm v"
  shows "parse_command_line c argv = Inr vm" and "length argv \<noteq> 1" and "notify c vm = Inr v"
  using assms
  by (auto simp: main_options_def split: sum.splits if_splits)

lemma main_options_Stop:
  assumes "main_options c argv = Stop tr rc" and "e \<in> set tr"
  shows "\<exists>s ps. e = Print s ps"
  using assms
  by (auto simp: main_options_def usage_error_def split: sum.splits if_splits)

lemma notify_Inr:
  assumes "notify c vm = Inr v"
  shows "alignmentMethodName v =
           (case method_arg vm of None \<Rightarrow> enumToString c (GICP c) | Some x \<Rightarrow> x)"
    and "scaleRatio v = (case scaleRatio_arg vm of None \<Rightarrow> literal_1f | Some x \<Rightarrow> x)"
    and "sourceMeasurement v =
           (case sourceMeasurement_arg vm of None \<Rightarrow> literal_1f | Some x \<Rightarrow> x)"
    and "targetMeasurement v =
           (case targetMeasurement_arg vm of None \<Rightarrow> literal_1f | Some x \<Rightarrow> x)"
    and "voxelSize v = (case voxelSize_arg vm of None \<Rightarrow> literal_0_1f | Some x \<Rightarrow> x)"
    and "showTimeline v = (case showTimeline_arg vm of None \<Rightarrow> True | Some x \<Rightarrow> x)"
    and "outputFile v = (case outputFile_arg vm of None \<Rightarrow> [] | Some x \<Rightarrow> x)"
    and "sourceFile_arg vm = Some (sourceFile v)"
    and "targetFile_arg vm = Some (targetFile v)"
proof -
  obtain s t where s: "sourceFile_arg vm = Some s" and t: "targetFile_arg vm = Some t"
    using assms
    by (cases "sourceFile_arg vm"; cases "targetFile_arg vm"; simp add: notify_def)
  let ?v = "\<lparr>alignmentMethodName =
            (case method_arg vm of None \<Rightarrow> enumToString c (GICP c) | Some x \<Rightarrow> x),
          sourceFile = s, targetFile = t,
          outputFile = (case outputFile_arg vm of None \<Rightarrow> [] | Some x \<Rightarrow> x),
          sourceMeasurement =
            (case sourceMeasurement_arg vm of None \<Rightarrow> literal_1f | Some x \<Rightarrow> x),
          targetMeasurement =
            (case targetMeasurement_arg vm of None \<Rightarrow> literal_1f | Some x \<Rightarrow> x),
          scaleRatio = (case scaleRatio_arg vm of None \<Rightarrow> literal_1f | Some x \<Rightarrow> x),
          voxelSize = (case voxelSize_arg vm of None \<Rightarrow> literal_0_1f | Some x \<Rightarrow> x),
          showTimeline = (case showTimeline_arg vm of None \<Rightarrow> True | Some x \<Rightarrow> x),
          verboseLevel =
            (case verboseLevel_arg vm of None \<Rightarrow> defaultVerboseLevel c | Some x \<Rightarrow> x)\<rparr>"
  have "notify c vm = Inr ?v"
    by (simp add: notify_def initial_variables_def s t cong: option.case_cong)
  with assms have v: "v = ?v"
    by simp
  show "alignmentMethodName v =
           (case method_arg vm of None \<Rightarrow> enumToString c (GICP c) | Some x \<Rightarrow> x)"
    by (subst v) simp
  show "scaleRatio v = (case scaleRatio_arg vm of None \<Rightarrow> literal_1f | Some x \<Rightarrow> x)"
    by (subst v) simp
  show "sourceMeasurement v =
           (case sourceMeasurement_arg vm of None \<Rightarrow> literal_1f | Some x \<Rightarrow> x)"
    by (subst v) simp
  show "targetMeasurement v =
           (case targetMeasurement_arg vm of None \<Rightarrow> literal_1f | Some x \<Rightarrow> x)"
    by (subst v) simp
  show "voxelSize v = (case voxelSize_arg vm of None \<Rightarrow> literal_0_1f | Some x \<Rightarrow> x)"
    by (subst v) simp
  show "showTimeline v = (case showTimeline_arg vm of None \<Rightarrow> True | Some x \<Rightarrow> x)"
    by (subst v) simp
  show "outputFile v = (case outputFile_arg vm of None \<Rightarrow> [] | Some x \<Rightarrow> x)"
    by (subst v) simp
  show "sourceFile_arg vm = Some (sourceFile v)"
    by (subst v) (simp add: s)
  show "targetFile_arg vm = Some (targetFile v)"
    by (subst v) (simp add: t)
qed

subsection \<open>From the setters to the end of \<^verbatim>\<open>main\<close>\<close>

lemma main_align_nan:
  assumes "main_align c v m reg = (tr, out)"
      and "Call_align m' T \<in> set tr" and "hasNaN T"
  shows "out = Return EXIT_FAILURE"
    and "Call_showTimeline report \<notin> set tr"
    and "Call_tranformAndSaveCloud s T' f rc \<notin> set tr"
  using assms
  by (auto simp: main_align_def Let_def split: prod.splits if_splits)

lemma main_align_no_output:
  assumes "main_align c v m reg = (tr, out)"
      and "Call_align m' T \<in> set tr" and "\<not> hasNaN T" and "outputFile v = []"
  shows "out = Return EXIT_SUCCESS"
    and "Call_tranformAndSaveCloud s T' f rc \<notin> set tr"
  using assms
  by (auto simp: main_align_def Let_def split: prod.splits if_splits)

lemma main_align_export:
  assumes "main_align c v m reg = (tr, out)"
      and "Call_align m' T \<in> set tr" and "\<not> hasNaN T" and "outputFile v \<noteq> []"
  shows "\<exists>reg0 reg' rc pre. align c m' reg0 = (T, reg') \<and>
           rc = tranformAndSaveCloud c (sourceFile v) T (outputFile v) reg' \<and>
           tr = pre @ [Call_tranformAndSaveCloud (sourceFile v) T (outputFile v) rc] \<and>
           Call_align m' T \<in> set pre \<and> out = Return rc"
proof -
  let ?reg0 = "setVoxelSize c (voxelSize v)
      (setSourceMeasurement c (sourceMeasurement v)
        (setTargetMeasurement c (targetMeasurement v)
          (setScaleRatio c (scaleRatio v) reg)))"
  obtain T0 reg' where al: "align c m ?reg0 = (T0, reg')"
    by (cases "align c m ?reg0")
  from assms(1,2) al have same: "m' = m" "T = T0"
    by (auto simp: main_align_def Let_def PointcloudRegistration_showTimeline_def
        split: if_splits)
  let ?rc = "tranformAndSaveCloud c (sourceFile v) T (outputFile v) reg'"
  from assms(1,3,4) al same obtain pre
    where "tr = pre @ [Call_tranformAndSaveCloud (sourceFile v) T (outputFile v) ?rc]"
      and "Call_align m' T \<in> set pre" and "out = Return ?rc"
    by (auto simp: main_align_def Let_def PointcloudRegistration_showTimeline_def
        split: if_splits)
  with al same show ?thesis
    by blast
qed

lemma main_align_no_load:
  assumes "main_align c v m reg = (tr, out)"
  shows "Call_loadSourceCloud f rc \<notin> set tr" and "Call_loadTargetCloud f rc \<notin> set tr"
  using assms
  by (auto simp: main_align_def Let_def split: prod.splits if_splits)

lemma main_align_showTimeline:
  "snd (main_align c (v\<lparr>showTimeline := b\<rparr>) m reg) = snd (main_align c v m reg) \<and>
   registration_calls (fst (main_align c (v\<lparr>showTimeline := b\<rparr>) m reg)) =
   registration_calls (fst (main_align c v m reg))"
  by (simp add: main_align_def PointcloudRegistration_showTimeline_def Let_def
      registration_calls_def split: prod.splits)

subsection \<open>From line 102 on\<close>

lemma before_align_not:
  assumes "\<forall>e\<in>set pre. before_align e"
  shows "Call_showTimeline report \<notin> set pre"
    and "Call_tranformAndSaveCloud s T f rc \<notin> set pre"
    and "Call_align m T \<notin> set pre"
    and "Call_loadSourceCloud f EXIT_FAILURE \<notin> set pre"
    and "Call_loadTargetCloud f EXIT_FAILURE \<notin> set pre"
  using assms by auto

lemma main_load_reaches_align:
  assumes "main_load c vm v = (tr, out)" and "Call_align m T \<in> set tr"
  shows "\<exists>mth reg pre tr'. main_align c v mth reg = (tr', out) \<and> tr = pre @ tr' \<and>
           Call_align m T \<in> set tr' \<and> (\<forall>e\<in>set pre. before_align e)"
proof (cases "stringToEnum c (alignmentMethodName v)")
  case None
  with assms show ?thesis
    by (auto simp: main_load_def)
next
  case (Some mth)
  obtain rc_s reg_s
    where s: "loadSourceCloud c (sourceFile v) (new_registration c) = (rc_s, reg_s)"
    by (cases "loadSourceCloud c (sourceFile v) (new_registration c)")
  obtain rc_t reg_t where t: "loadTargetCloud c (targetFile v) reg_s = (rc_t, reg_t)"
    by (cases "loadTargetCloud c (targetFile v) reg_s")
  obtain tr' out' where a: "main_align c v mth reg_t = (tr', out')"
    by (cases "main_align c v mth reg_t")
  from assms Some s t a have ok: "rc_s \<noteq> EXIT_FAILURE" "rc_t \<noteq> EXIT_FAILURE"
    by (auto simp: main_load_def Let_def split: if_splits)
  let ?pre = "[Print COUT [Str ''Program called with the following parameters:''],
               Print COUT [Vm vm],
               Print COUT [Str ''Alignment Method: '', Str (enumToString c mth)],
               Print COUT [Str ''Create PointcloudRegistration''],
               Call_loadSourceCloud (sourceFile v) rc_s,
               Call_loadTargetCloud (targetFile v) rc_t,
               Print LOG_INFO [Str ''Point clouds loaded.'']]"
  from assms(1) Some s t a ok have tr: "tr = ?pre @ tr'" and out: "out = out'"
    by (simp_all add: main_load_def Let_def)
  have pre: "\<forall>e\<in>set ?pre. before_align e"
    using ok by simp
  with assms(2) tr have "Call_align m T \<in> set tr'"
    by auto
  with a tr out pre show ?thesis
    by blast
qed

lemma main_reaches_align:
  assumes "main c argv = (tr, out)" and "Call_align m T \<in> set tr"
  shows "\<exists>vm v mth reg pre tr'. main_options c argv = Parsed vm v \<and>
           main_align c v mth reg = (tr', out) \<and> tr = pre @ tr' \<and>
           Call_align m T \<in> set tr' \<and> (\<forall>e\<in>set pre. before_align e)"
proof (cases "main_options c argv")
  case (Stop tr0 rc)
  with assms have "Call_align m T \<in> set tr0"
    by (simp add: main_def)
  with main_options_Stop [OF Stop] show ?thesis
    by blast
next
  case (Parsed vm v)
  with assms have "main_load c vm v = (tr, out)"
    by (simp add: main_def)
  from main_load_reaches_align [OF this assms(2)] Parsed show ?thesis
    by blast
qed

lemma main_load_failure:
  assumes "main_load c vm v = (tr, out)"
      and "Call_loadSourceCloud f EXIT_FAILURE \<in> set tr \<or>
           Call_loadTargetCloud f EXIT_FAILURE \<in> set tr"
  shows "out = Return EXIT_FAILURE" and "Call_align m T \<notin> set tr"
proof -
  show "Call_align m T \<notin> set tr"
  proof
    assume "Call_align m T \<in> set tr"
    from main_load_reaches_align [OF assms(1) this] obtain mth reg pre tr'
      where a: "main_align c v mth reg = (tr', out)" and tr: "tr = pre @ tr'"
        and pre: "\<forall>e\<in>set pre. before_align e"
      by blast
    from assms(2) tr main_align_no_load [OF a] before_align_not(4,5) [OF pre]
    show False
      by simp
  qed
  show "out = Return EXIT_FAILURE"
    using assms
    by (auto simp: main_load_def main_align_def Let_def
        split: option.splits prod.splits if_splits)
qed

lemma main_load_showTimeline:
  "snd (main_load c vm' (v\<lparr>showTimeline := b\<rparr>)) = snd (main_load c vm v) \<and>
   registration_calls (fst (main_load c vm' (v\<lparr>showTimeline := b\<rparr>))) =
   registration_calls (fst (main_load c vm v))"
proof (cases "stringToEnum c (alignmentMethodName v)")
  case None
  then show ?thesis
    by (simp add: main_load_def registration_calls_def)
next
  case (Some mth)
  obtain rc_s reg_s
    where s: "loadSourceCloud c (sourceFile v) (new_registration c) = (rc_s, reg_s)"
    by (cases "loadSourceCloud c (sourceFile v) (new_registration c)")
  obtain rc_t reg_t where t: "loadTargetCloud c (targetFile v) reg_s = (rc_t, reg_t)"
    by (cases "loadTargetCloud c (targetFile v) reg_s")
  from main_align_showTimeline [where c = c and v = v and b = b and m = mth and reg = reg_t]
    Some s t
  show ?thesis
    by (simp add: main_load_def registration_calls_def Let_def split_beta)
qed

lemma Call_align_registration_calls:
  "Call_align m T \<in> set (registration_calls tr) \<longleftrightarrow> Call_align m T \<in> set tr"
  by (auto simp: registration_calls_def)

section \<open>The claims on \<^verbatim>\<open>main\<close>\<close>

text \<open>
  Claim C1. In every run in which \<^verbatim>\<open>loadSourceCloud\<close> or \<^verbatim>\<open>loadTargetCloud\<close> is called and
  returns \<^verbatim>\<open>EXIT_FAILURE\<close>, \<^verbatim>\<open>main\<close> returns \<^verbatim>\<open>EXIT_FAILURE\<close>, which is not zero, and
  \<^verbatim>\<open>align\<close> is not called in that run.
\<close>

theorem load_failure_exits_before_align:
  assumes "main c argv = (tr, out)"
      and "Call_loadSourceCloud f EXIT_FAILURE \<in> set tr \<or>
           Call_loadTargetCloud f EXIT_FAILURE \<in> set tr"
  shows "out = Return EXIT_FAILURE \<and> EXIT_FAILURE \<noteq> 0 \<and> (\<forall>m T. Call_align m T \<notin> set tr)"
proof (cases "main_options c argv")
  case (Stop tr0 rc)
  with assms(1) have "tr = tr0"
    by (simp add: main_def)
  with assms(2) main_options_Stop [OF Stop] show ?thesis
    by blast
next
  case (Parsed vm v)
  with assms(1) have run: "main_load c vm v = (tr, out)"
    by (simp add: main_def)
  from main_load_failure [OF run assms(2)] show ?thesis
    by (simp add: EXIT_FAILURE_def)
qed

theorem load_failure_exits_before_align_witness:
  "Call_loadSourceCloud ''missing.ply'' EXIT_FAILURE \<in> set (fst (main sample argv_missing)) \<and>
   snd (main sample argv_missing) = Return EXIT_FAILURE \<and>
   (\<forall>m T. Call_align m T \<notin> set (fst (main sample argv_missing)))"
proof -
  have called:
    "Call_loadSourceCloud ''missing.ply'' EXIT_FAILURE \<in> set (fst (main sample argv_missing))"
    by (simp add: sample_run argv_missing_def)
  from load_failure_exits_before_align
         [of sample argv_missing "fst (main sample argv_missing)"
             "snd (main sample argv_missing)" "''missing.ply''"] called
  show ?thesis
    by simp
qed

text \<open>
  Claim C2. In every run in which the transform returned by \<^verbatim>\<open>align\<close> has a not-a-number
  coefficient, \<^verbatim>\<open>main\<close> returns \<^verbatim>\<open>EXIT_FAILURE\<close>, which is not zero, and
  \<^verbatim>\<open>tranformAndSaveCloud\<close> is not called, whatever the output path.
\<close>

theorem nan_transform_fails_without_export:
  assumes "main c argv = (tr, out)"
      and "Call_align m T \<in> set tr"
      and "hasNaN T"
  shows "out = Return EXIT_FAILURE \<and> EXIT_FAILURE \<noteq> 0 \<and>
         (\<forall>s T' f rc. Call_tranformAndSaveCloud s T' f rc \<notin> set tr)"
proof -
  from main_reaches_align [OF assms(1,2)] obtain vm v mth reg pre tr'
    where a: "main_align c v mth reg = (tr', out)" and tr: "tr = pre @ tr'"
      and m: "Call_align m T \<in> set tr'" and pre: "\<forall>e\<in>set pre. before_align e"
    by blast
  have "Call_tranformAndSaveCloud s T' f rc \<notin> set tr" for s T' f rc
    using main_align_nan(3) [OF a m assms(3)] before_align_not(2) [OF pre] tr by simp
  moreover have "out = Return EXIT_FAILURE"
    by (rule main_align_nan(1) [OF a m assms(3)])
  ultimately show ?thesis
    by (simp add: EXIT_FAILURE_def)
qed

theorem nan_transform_fails_without_export_witness:
  "Call_align 0 degenerate4 \<in> set (fst (main sample argv_flat)) \<and> hasNaN degenerate4 \<and>
   snd (main sample argv_flat) = Return EXIT_FAILURE \<and>
   (\<forall>s T' f rc. Call_tranformAndSaveCloud s T' f rc \<notin> set (fst (main sample argv_flat)))"
proof -
  have called: "Call_align 0 degenerate4 \<in> set (fst (main sample argv_flat))"
    by (simp add: sample_run argv_flat_def)
  from nan_transform_fails_without_export
         [of sample argv_flat "fst (main sample argv_flat)" "snd (main sample argv_flat)"
             0 degenerate4] called hasNaN_degenerate4
  show ?thesis
    by simp
qed

text \<open>
  Claim C3. In every run in which both clouds load, the transform has no not-a-number
  coefficient and the output path is the empty string, \<^verbatim>\<open>tranformAndSaveCloud\<close> is not
  called and \<^verbatim>\<open>main\<close> returns \<^verbatim>\<open>EXIT_SUCCESS\<close>, which is 0.
\<close>

theorem empty_output_path_skips_export:
  assumes "main_options c argv = Parsed vm v"
      and "main c argv = (tr, out)"
      and "Call_loadSourceCloud f rc_s \<in> set tr" and "rc_s \<noteq> EXIT_FAILURE"
      and "Call_loadTargetCloud g rc_t \<in> set tr" and "rc_t \<noteq> EXIT_FAILURE"
      and "Call_align m T \<in> set tr" and "\<not> hasNaN T"
      and "outputFile v = []"
  shows "out = Return EXIT_SUCCESS \<and> EXIT_SUCCESS = 0 \<and>
         (\<forall>s T' f rc. Call_tranformAndSaveCloud s T' f rc \<notin> set tr)"
proof -
  from main_reaches_align [OF assms(2,7)] assms(1) obtain mth reg pre tr'
    where a: "main_align c v mth reg = (tr', out)" and tr: "tr = pre @ tr'"
      and m: "Call_align m T \<in> set tr'" and pre: "\<forall>e\<in>set pre. before_align e"
    by auto
  have "Call_tranformAndSaveCloud s T' f rc \<notin> set tr" for s T' f rc
    using main_align_no_output(2) [OF a m assms(8,9)] before_align_not(2) [OF pre] tr by simp
  moreover have "out = Return EXIT_SUCCESS"
    by (rule main_align_no_output(1) [OF a m assms(8,9)])
  ultimately show ?thesis
    by (simp add: EXIT_SUCCESS_def)
qed

theorem empty_output_path_skips_export_witness:
  "main_options sample argv_plain = Parsed supplied_plain variables_plain \<and>
   outputFile variables_plain = [] \<and>
   Call_loadSourceCloud ''a.ply'' EXIT_SUCCESS \<in> set (fst (main sample argv_plain)) \<and>
   Call_loadTargetCloud ''b.ply'' EXIT_SUCCESS \<in> set (fst (main sample argv_plain)) \<and>
   Call_align 0 identity4 \<in> set (fst (main sample argv_plain)) \<and> \<not> hasNaN identity4 \<and>
   snd (main sample argv_plain) = Return EXIT_SUCCESS \<and>
   (\<forall>s T' f rc. Call_tranformAndSaveCloud s T' f rc \<notin> set (fst (main sample argv_plain)))"
proof -
  have opts: "main_options sample argv_plain = Parsed supplied_plain variables_plain"
    by (simp add: sample_run argv_plain_def supplied_plain_def variables_plain_def)
  have empty: "outputFile variables_plain = []"
    by (simp add: variables_plain_def)
  have src: "Call_loadSourceCloud ''a.ply'' EXIT_SUCCESS \<in> set (fst (main sample argv_plain))"
    and tgt: "Call_loadTargetCloud ''b.ply'' EXIT_SUCCESS \<in> set (fst (main sample argv_plain))"
    and al: "Call_align 0 identity4 \<in> set (fst (main sample argv_plain))"
    by (simp_all add: sample_run argv_plain_def)
  have ok: "EXIT_SUCCESS \<noteq> EXIT_FAILURE"
    by (simp add: EXIT_SUCCESS_def EXIT_FAILURE_def)
  from empty_output_path_skips_export
         [OF opts prod.collapse [symmetric] src ok tgt ok al not_hasNaN_identity4 empty]
       opts empty src tgt al not_hasNaN_identity4
  show ?thesis
    by simp
qed

text \<open>
  Claim C4. For every option that has a default and is not given on the command line, the
  variable holds its initial value after \<^verbatim>\<open>po::notify\<close>: the name of \<^verbatim>\<open>GICP\<close> for the
  method, \<^verbatim>\<open>1.f\<close> for the scale ratio and the two measurements, \<^verbatim>\<open>0.1f\<close> for the voxel
  size, \<^verbatim>\<open>true\<close> for the timeline flag. The value of \<^verbatim>\<open>1.f\<close> is exactly 1 and that of
  \<^verbatim>\<open>0.1f\<close> is the single-precision number nearest to 1/10 (within half a unit in the
  last place, \<open>2\<^sup>-\<^sup>2\<^sup>8\<close>).
\<close>

theorem defaults_when_not_supplied:
  assumes "main_options c argv = Parsed vm v"
  shows "(method_arg vm = None \<longrightarrow> alignmentMethodName v = enumToString c (GICP c)) \<and>
         (scaleRatio_arg vm = None \<longrightarrow> scaleRatio v = literal_1f) \<and>
         (sourceMeasurement_arg vm = None \<longrightarrow> sourceMeasurement v = literal_1f) \<and>
         (targetMeasurement_arg vm = None \<longrightarrow> targetMeasurement v = literal_1f) \<and>
         (voxelSize_arg vm = None \<longrightarrow> voxelSize v = literal_0_1f) \<and>
         (showTimeline_arg vm = None \<longrightarrow> showTimeline v = True) \<and>
         float_value literal_1f = Some 1 \<and>
         (\<exists>x. float_value literal_0_1f = Some x \<and> \<bar>x - 1 / 10\<bar> \<le> 1 / 2 ^ 28)"
proof -
  from assms have n: "notify c vm = Inr v"
    by (rule main_options_Parsed)
  have fields:
    "method_arg vm = None \<longrightarrow> alignmentMethodName v = enumToString c (GICP c)"
    "scaleRatio_arg vm = None \<longrightarrow> scaleRatio v = literal_1f"
    "sourceMeasurement_arg vm = None \<longrightarrow> sourceMeasurement v = literal_1f"
    "targetMeasurement_arg vm = None \<longrightarrow> targetMeasurement v = literal_1f"
    "voxelSize_arg vm = None \<longrightarrow> voxelSize v = literal_0_1f"
    "showTimeline_arg vm = None \<longrightarrow> showTimeline v = True"
    by (simp_all add: notify_Inr [OF n])
  have "\<bar>(13421773 / 134217728 :: rat) - 1 / 10\<bar> \<le> 1 / 2 ^ 28"
    by simp
  then have near: "\<exists>x. float_value literal_0_1f = Some x \<and> \<bar>x - 1 / 10\<bar> \<le> 1 / 2 ^ 28"
    using literal_0_1f_value by blast
  from fields literal_1f_value near show ?thesis
    by (intro conjI)
qed

theorem defaults_when_not_supplied_witness:
  "main_options sample argv_plain = Parsed supplied_plain variables_plain \<and>
   method_arg supplied_plain = None \<and> scaleRatio_arg supplied_plain = None \<and>
   sourceMeasurement_arg supplied_plain = None \<and> targetMeasurement_arg supplied_plain = None \<and>
   voxelSize_arg supplied_plain = None \<and> showTimeline_arg supplied_plain = None \<and>
   alignmentMethodName variables_plain = enumToString sample (GICP sample) \<and>
   scaleRatio variables_plain = literal_1f \<and>
   sourceMeasurement variables_plain = literal_1f \<and>
   targetMeasurement variables_plain = literal_1f \<and>
   voxelSize variables_plain = literal_0_1f \<and>
   showTimeline variables_plain = True"
proof -
  have opts: "main_options sample argv_plain = Parsed supplied_plain variables_plain"
    by (simp add: sample_run argv_plain_def supplied_plain_def variables_plain_def)
  have none: "method_arg supplied_plain = None" "scaleRatio_arg supplied_plain = None"
    "sourceMeasurement_arg supplied_plain = None" "targetMeasurement_arg supplied_plain = None"
    "voxelSize_arg supplied_plain = None" "showTimeline_arg supplied_plain = None"
    by (simp_all add: supplied_plain_def nothing_supplied_def)
  from defaults_when_not_supplied [OF opts] opts none show ?thesis
    by simp
qed

text \<open>
  Claim C5. Two runs with the same collaborators whose variables after \<^verbatim>\<open>po::notify\<close> differ
  only in \<^verbatim>\<open>showTimeline\<close> end in the same way (the same status, or both with the uncaught
  exception), obtain the same transform from \<^verbatim>\<open>align\<close>, and make the same calls with the
  same results on the registration object, \<^verbatim>\<open>showTimeline\<close> apart.
\<close>

theorem showTimeline_flag_noninterference:
  assumes "main_options c argv = Parsed vm v"
      and "main_options c argv' = Parsed vm' (v\<lparr>showTimeline := b\<rparr>)"
  shows "snd (main c argv') = snd (main c argv) \<and>
         (\<forall>m T. Call_align m T \<in> set (fst (main c argv')) \<longleftrightarrow>
                Call_align m T \<in> set (fst (main c argv))) \<and>
         registration_calls (fst (main c argv')) = registration_calls (fst (main c argv))"
proof -
  from assms have run: "main c argv = main_load c vm v"
    and run': "main c argv' = main_load c vm' (v\<lparr>showTimeline := b\<rparr>)"
    by (simp_all add: main_def)
  have out: "snd (main c argv') = snd (main c argv)"
    and calls: "registration_calls (fst (main c argv')) = registration_calls (fst (main c argv))"
    using main_load_showTimeline [where c = c and vm = vm and vm' = vm' and v = v and b = b]
    by (simp_all add: run run')
  have "Call_align m T \<in> set (fst (main c argv')) \<longleftrightarrow> Call_align m T \<in> set (fst (main c argv))"
    for m T
    using calls Call_align_registration_calls [of m T] by metis
  with out calls show ?thesis
    by blast
qed

theorem showTimeline_flag_noninterference_witness:
  "snd (main sample argv_locked_quiet) = snd (main sample argv_locked) \<and>
   (\<forall>m T. Call_align m T \<in> set (fst (main sample argv_locked_quiet)) \<longleftrightarrow>
          Call_align m T \<in> set (fst (main sample argv_locked))) \<and>
   registration_calls (fst (main sample argv_locked_quiet)) =
   registration_calls (fst (main sample argv_locked)) \<and>
   Call_showTimeline ''load, align'' \<in> set (fst (main sample argv_locked)) \<and>
   Call_showTimeline ''load, align'' \<notin> set (fst (main sample argv_locked_quiet))"
proof -
  let ?v = "variables_plain\<lparr>outputFile := ''locked.ply''\<rparr>"
  let ?vm = "supplied_plain\<lparr>outputFile_arg := Some ''locked.ply''\<rparr>"
  have opts: "main_options sample argv_locked = Parsed ?vm ?v"
    by (simp add: sample_run argv_locked_def supplied_plain_def variables_plain_def)
  have opts': "main_options sample argv_locked_quiet =
      Parsed (?vm\<lparr>showTimeline_arg := Some False\<rparr>) (?v\<lparr>showTimeline := False\<rparr>)"
    by (simp add: sample_run argv_locked_quiet_def supplied_plain_def variables_plain_def)
  have shown: "Call_showTimeline ''load, align'' \<in> set (fst (main sample argv_locked))"
    by (simp add: sample_run argv_locked_def)
  have quiet: "Call_showTimeline ''load, align'' \<notin> set (fst (main sample argv_locked_quiet))"
    by (simp add: sample_run argv_locked_quiet_def)
  from showTimeline_flag_noninterference [OF opts opts'] shown quiet show ?thesis
    by blast
qed

text \<open>
  Claim C8. In every run in which the transform has no not-a-number coefficient and the
  output path is not empty, the last step of the run is the call of
  \<^verbatim>\<open>tranformAndSaveCloud\<close> on the source path, that transform and the output path, made on
  the registration object as \<^verbatim>\<open>align\<close> left it, and \<^verbatim>\<open>main\<close> returns the value of that
  call. So a call that returns a value other than 0 gives a status other than 0, after the
  alignment.
\<close>

theorem exit_status_is_export_status:
  assumes "main_options c argv = Parsed vm v"
      and "main c argv = (tr, out)"
      and "Call_align m T \<in> set tr" and "\<not> hasNaN T"
      and "outputFile v \<noteq> []"
  shows "\<exists>reg0 reg rc pre. align c m reg0 = (T, reg) \<and>
           rc = tranformAndSaveCloud c (sourceFile v) T (outputFile v) reg \<and>
           tr = pre @ [Call_tranformAndSaveCloud (sourceFile v) T (outputFile v) rc] \<and>
           Call_align m T \<in> set pre \<and> out = Return rc \<and>
           (rc \<noteq> 0 \<longrightarrow> out \<noteq> Return 0)"
proof -
  from main_reaches_align [OF assms(2,3)] assms(1) obtain mth reg1 pre tr'
    where a: "main_align c v mth reg1 = (tr', out)" and tr: "tr = pre @ tr'"
      and m: "Call_align m T \<in> set tr'"
    by auto
  from main_align_export [OF a m assms(4,5)] obtain reg0 reg rc pre'
    where al: "align c m reg0 = (T, reg)"
      and rc: "rc = tranformAndSaveCloud c (sourceFile v) T (outputFile v) reg"
      and tr': "tr' = pre' @ [Call_tranformAndSaveCloud (sourceFile v) T (outputFile v) rc]"
      and before: "Call_align m T \<in> set pre'" and out: "out = Return rc"
    by blast
  from tr tr' have last:
    "tr = (pre @ pre') @ [Call_tranformAndSaveCloud (sourceFile v) T (outputFile v) rc]"
    by simp
  from before have before': "Call_align m T \<in> set (pre @ pre')"
    by simp
  from out have status: "rc \<noteq> 0 \<longrightarrow> out \<noteq> Return 0"
    by simp
  from al rc last before' out status show ?thesis
    by blast
qed

theorem exit_status_is_export_status_witness:
  "Call_align 0 identity4 \<in> set (fst (main sample argv_locked)) \<and> \<not> hasNaN identity4 \<and>
   (\<exists>reg0 reg.
      align sample 0 reg0 = (identity4, reg) \<and>
      tranformAndSaveCloud sample ''a.ply'' identity4 ''locked.ply'' reg = EXIT_FAILURE \<and>
      last (fst (main sample argv_locked)) =
        Call_tranformAndSaveCloud ''a.ply'' identity4 ''locked.ply''
          (tranformAndSaveCloud sample ''a.ply'' identity4 ''locked.ply'' reg) \<and>
      snd (main sample argv_locked) =
        Return (tranformAndSaveCloud sample ''a.ply'' identity4 ''locked.ply'' reg)) \<and>
   snd (main sample argv_locked) = Return EXIT_FAILURE \<and> EXIT_FAILURE \<noteq> 0"
proof -
  let ?v = "variables_plain\<lparr>outputFile := ''locked.ply''\<rparr>"
  let ?vm = "supplied_plain\<lparr>outputFile_arg := Some ''locked.ply''\<rparr>"
  have opts: "main_options sample argv_locked = Parsed ?vm ?v"
    by (simp add: sample_run argv_locked_def supplied_plain_def variables_plain_def)
  have path: "outputFile ?v \<noteq> []"
    by simp
  have src: "sourceFile ?v = ''a.ply''" and dst: "outputFile ?v = ''locked.ply''"
    by (simp_all add: variables_plain_def)
  have al: "Call_align 0 identity4 \<in> set (fst (main sample argv_locked))"
    by (simp add: sample_run argv_locked_def)
  have locked: "tranformAndSaveCloud sample ''a.ply'' identity4 ''locked.ply'' reg = EXIT_FAILURE"
    for reg
    by (simp add: sample_def)
  from exit_status_is_export_status
         [OF opts prod.collapse [symmetric] al not_hasNaN_identity4 path]
  obtain reg0 reg rc pre where run: "align sample 0 reg0 = (identity4, reg)"
    and rc: "rc = tranformAndSaveCloud sample ''a.ply'' identity4 ''locked.ply'' reg"
    and tr: "fst (main sample argv_locked) =
        pre @ [Call_tranformAndSaveCloud ''a.ply'' identity4 ''locked.ply'' rc]"
    and out: "snd (main sample argv_locked) = Return rc"
    unfolding src dst by blast
  from tr have last: "last (fst (main sample argv_locked)) =
      Call_tranformAndSaveCloud ''a.ply'' identity4 ''locked.ply'' rc"
    by simp
  from out rc locked have failed: "snd (main sample argv_locked) = Return EXIT_FAILURE"
    by simp
  have nonzero: "EXIT_FAILURE \<noteq> 0"
    by (simp add: EXIT_FAILURE_def)
  from run locked last out have "\<exists>reg0 reg.
      align sample 0 reg0 = (identity4, reg) \<and>
      tranformAndSaveCloud sample ''a.ply'' identity4 ''locked.ply'' reg = EXIT_FAILURE \<and>
      last (fst (main sample argv_locked)) =
        Call_tranformAndSaveCloud ''a.ply'' identity4 ''locked.ply''
          (tranformAndSaveCloud sample ''a.ply'' identity4 ''locked.ply'' reg) \<and>
      snd (main sample argv_locked) =
        Return (tranformAndSaveCloud sample ''a.ply'' identity4 ''locked.ply'' reg)"
    unfolding rc by blast
  with al not_hasNaN_identity4 failed nonzero show ?thesis
    by (intro conjI)
qed

text \<open>
  Claim C9. Called with the program name alone (\<^verbatim>\<open>argc\<close> is 1), \<^verbatim>\<open>main\<close> prints the
  description of the options and returns \<^verbatim>\<open>EXIT_SUCCESS\<close>, which is 0; it does nothing
  else, and the two required paths are not asked for.
\<close>

theorem no_arguments_prints_usage:
  assumes "length argv = 1"
  shows "main c argv = ([Print COUT [AllParams]], Return EXIT_SUCCESS) \<and> EXIT_SUCCESS = 0"
proof -
  from assms have "parse_command_line c argv = Inr nothing_supplied"
    by (simp add: parse_command_line_def)
  with assms have "main_options c argv = Stop [Print COUT [AllParams]] EXIT_SUCCESS"
    by (simp add: main_options_def)
  then show ?thesis
    by (simp add: main_def EXIT_SUCCESS_def)
qed

theorem no_arguments_prints_usage_witness:
  "length [''3d3dRegistration''] = 1 \<and>
   main sample [''3d3dRegistration''] = ([Print COUT [AllParams]], Return EXIT_SUCCESS)"
  using no_arguments_prints_usage [of "[''3d3dRegistration'']" sample]
  by simp

text \<open>
  Claim C10. In every run in which the transform returned by \<^verbatim>\<open>align\<close> has a
  not-a-number coefficient, \<^verbatim>\<open>showTimeline\<close> is not called, whatever the flag.
\<close>

theorem nan_transform_never_shows_timeline:
  assumes "main c argv = (tr, out)"
      and "Call_align m T \<in> set tr"
      and "hasNaN T"
  shows "\<forall>report. Call_showTimeline report \<notin> set tr"
proof
  fix report
  from main_reaches_align [OF assms(1,2)] obtain vm v mth reg pre tr'
    where a: "main_align c v mth reg = (tr', out)" and tr: "tr = pre @ tr'"
      and m: "Call_align m T \<in> set tr'" and pre: "\<forall>e\<in>set pre. before_align e"
    by blast
  show "Call_showTimeline report \<notin> set tr"
    using main_align_nan(2) [OF a m assms(3)] before_align_not(1) [OF pre] tr by simp
qed

theorem nan_transform_never_shows_timeline_witness:
  "(\<exists>vm v. main_options sample argv_flat_timeline = Parsed vm v \<and> showTimeline v) \<and>
   Call_align 0 degenerate4 \<in> set (fst (main sample argv_flat_timeline)) \<and>
   hasNaN degenerate4 \<and>
   (\<forall>report. Call_showTimeline report \<notin> set (fst (main sample argv_flat_timeline)))"
proof -
  have flag: "\<exists>vm v. main_options sample argv_flat_timeline = Parsed vm v \<and> showTimeline v"
    by (simp add: sample_run argv_flat_timeline_def)
  have called: "Call_align 0 degenerate4 \<in> set (fst (main sample argv_flat_timeline))"
    by (simp add: sample_run argv_flat_timeline_def)
  from nan_transform_never_shows_timeline
         [OF prod.collapse [symmetric] called hasNaN_degenerate4] flag called hasNaN_degenerate4
  show ?thesis
    by blast
qed

section \<open>The scale resolver and the downsampler of the specification\<close>







subsection \<open>The mean stays in a half-open interval\<close>

lemma sum_list_lower:
  fixes xs :: "rat list"
  assumes "\<forall>x\<in>set xs. lo \<le> x"
  shows "lo * of_nat (length xs) \<le> sum_list xs"
  using assms by (induction xs) (auto simp: algebra_simps)

lemma sum_list_upper:
  fixes xs :: "rat list"
  assumes "xs \<noteq> []" and "\<forall>x\<in>set xs. x < hi"
  shows "sum_list xs < hi * of_nat (length xs)"
  using assms
proof (induction xs)
  case Nil
  then show ?case by simp
next
  case (Cons x xs)
  show ?case
  proof (cases "xs = []")
    case True
    with Cons.prems show ?thesis by simp
  next
    case False
    with Cons have "sum_list xs < hi * of_nat (length xs)" by simp
    moreover from Cons.prems have "x < hi" by simp
    ultimately show ?thesis by (simp add: algebra_simps)
  qed
qed

lemma mean_in_interval:
  assumes "xs \<noteq> []" and "\<forall>x\<in>set xs. lo \<le> x \<and> x < hi"
  shows "lo \<le> mean xs" and "mean xs < hi"
proof -
  from assms(1) have n: "(0::rat) < of_nat (length xs)"
    by simp
  from assms(2) have "lo * of_nat (length xs) \<le> sum_list xs"
    by (intro sum_list_lower) simp
  with n show "lo \<le> mean xs"
    by (simp add: mean_def pos_le_divide_eq)
  from assms have "sum_list xs < hi * of_nat (length xs)"
    by (intro sum_list_upper) simp_all
  with n show "mean xs < hi"
    by (simp add: mean_def pos_divide_less_eq)
qed

lemma floor_div_cell:
  fixes x V :: rat
  assumes "0 < V"
  shows "\<lfloor>x / V\<rfloor> = k \<longleftrightarrow> of_int k * V \<le> x \<and> x < (of_int k + 1) * V"
  using assms by (simp add: floor_eq_iff pos_le_divide_eq pos_divide_less_eq)

lemma mean_in_cell:
  assumes "0 < V" and "xs \<noteq> []" and "\<forall>x\<in>set xs. \<lfloor>x / V\<rfloor> = k"
  shows "\<lfloor>mean xs / V\<rfloor> = k"
proof -
  from assms(1,3) have "\<forall>x\<in>set xs. of_int k * V \<le> x \<and> x < (of_int k + 1) * V"
    by (simp add: floor_div_cell)
  from mean_in_interval [OF assms(2) this] assms(1) show ?thesis
    by (simp add: floor_div_cell)
qed

lemma same_cell_close:
  fixes x y V :: rat
  assumes "0 < V" and "\<lfloor>x / V\<rfloor> = k" and "\<lfloor>y / V\<rfloor> = k"
  shows "\<bar>x - y\<bar> < V"
proof -
  from assms have "of_int k * V \<le> x" "x < (of_int k + 1) * V"
    "of_int k * V \<le> y" "y < (of_int k + 1) * V"
    by (simp_all add: floor_div_cell)
  then show ?thesis
    by (simp add: algebra_simps abs_less_iff)
qed

subsection \<open>The centroid of a voxel's points lies in the voxel\<close>

lemma centroid_in_voxel:
  assumes "0 < V" and "ps \<noteq> []" and "\<forall>p\<in>set ps. voxel_of V p = k"
  shows "voxel_of V (centroid ps) = k"
proof -
  obtain kx ky kz where k: "k = (kx, ky, kz)"
    by (cases k)
  from assms(3) k have x: "\<forall>x\<in>set (map fst ps). \<lfloor>x / V\<rfloor> = kx"
    and y: "\<forall>y\<in>set (map (\<lambda>p. fst (snd p)) ps). \<lfloor>y / V\<rfloor> = ky"
    and z: "\<forall>z\<in>set (map (\<lambda>p. snd (snd p)) ps). \<lfloor>z / V\<rfloor> = kz"
    by auto
  from assms(2) have ne: "map fst ps \<noteq> []" "map (\<lambda>p. fst (snd p)) ps \<noteq> []"
    "map (\<lambda>p. snd (snd p)) ps \<noteq> []"
    by simp_all
  from mean_in_cell [OF assms(1) ne(1) x] mean_in_cell [OF assms(1) ne(2) y]
    mean_in_cell [OF assms(1) ne(3) z] k
  show ?thesis
    by (simp add: centroid_def)
qed

lemma same_voxel_within:
  assumes "0 < V" and "voxel_of V q = k" and "voxel_of V p = k"
  shows "within_one_voxel V q p"
proof -
  obtain qx qy qz px py pz where q: "q = (qx, qy, qz)" and p: "p = (px, py, pz)"
    by (cases q, cases p) auto
  obtain kx ky kz where k: "k = (kx, ky, kz)"
    by (cases k)
  from assms q p k show ?thesis
    by (simp add: same_cell_close)
qed

lemma voxel_points_member:
  "p \<in> set (voxel_points V cloud k) \<longleftrightarrow> p \<in> set cloud \<and> voxel_of V p = k"
  by (simp add: voxel_points_def)

lemma voxel_points_nonempty:
  assumes "k \<in> set (map (voxel_of V) cloud)"
  shows "voxel_points V cloud k \<noteq> []"
proof -
  from assms obtain p where "p \<in> set cloud" "voxel_of V p = k"
    by auto
  then have "p \<in> set (voxel_points V cloud k)"
    by (simp add: voxel_points_member)
  then show ?thesis
    by auto
qed

subsection \<open>The sample cloud\<close>

lemma sample_voxels:
  "voxel_of (1 / 10) (0, 0, 0) = (0, 0, 0)"
  "voxel_of (1 / 10) (1 / 20, 1 / 20, 3 / 40) = (0, 0, 0)"
  "voxel_of (1 / 10) (1, 1, 1) = (10, 10, 10)"
  "voxel_of (1 / 10) (- (1 / 20), 0, 0) = (- 1, 0, 0)"
  "voxel_of (1 / 10) (1 / 40, 1 / 40, 3 / 80) = (0, 0, 0)"
  by (simp_all add: floor_eq_iff)

lemma downsample_sample_cloud:
  "downsample sample_cloud (1 / 10) =
     Inr [(1 / 40, 1 / 40, 3 / 80), (1, 1, 1), (- (1 / 20), 0, 0)]"
  by (simp add: downsample_def sample_cloud_def voxel_points_def centroid_def mean_def
      sample_voxels del: voxel_of.simps)

text \<open>
  Claim C7. For every cloud and every voxel size \<open>V > 0\<close>, downsampling succeeds with a
  cloud that has at most as many points as the input, and every output point is the
  centroid of the (at least one) input points of some voxel, lies in that voxel itself,
  and is less than \<open>V\<close> away from each of them along every axis.
\<close>

theorem downsample_shrinks_within_voxel:
  assumes "0 < V"
  shows "\<exists>out. downsample cloud V = Inr out \<and> length out \<le> length cloud \<and>
           (\<forall>q\<in>set out. \<exists>k. voxel_points V cloud k \<noteq> [] \<and>
              q = centroid (voxel_points V cloud k) \<and> voxel_of V q = k \<and>
              (\<forall>p\<in>set (voxel_points V cloud k). voxel_of V p = k \<and> within_one_voxel V q p))"
proof -
  let ?ks = "remdups (map (voxel_of V) cloud)"
  let ?out = "map (\<lambda>k. centroid (voxel_points V cloud k)) ?ks"
  from assms have run: "downsample cloud V = Inr ?out"
    by (simp add: downsample_def)
  have "length ?out = length ?ks"
    by simp
  also have "\<dots> \<le> length (map (voxel_of V) cloud)"
    by (rule length_remdups_leq)
  finally have count: "length ?out \<le> length cloud"
    by simp
  have near: "\<exists>k. voxel_points V cloud k \<noteq> [] \<and> q = centroid (voxel_points V cloud k) \<and>
      voxel_of V q = k \<and>
      (\<forall>p\<in>set (voxel_points V cloud k). voxel_of V p = k \<and> within_one_voxel V q p)"
    if "q \<in> set ?out" for q
  proof -
    from that obtain k where k: "k \<in> set (map (voxel_of V) cloud)"
      and q: "q = centroid (voxel_points V cloud k)"
      by auto
    have ne: "voxel_points V cloud k \<noteq> []"
      using k by (rule voxel_points_nonempty)
    have all: "\<forall>p\<in>set (voxel_points V cloud k). voxel_of V p = k"
      by (simp add: voxel_points_member)
    have cell: "voxel_of V q = k"
      unfolding q using assms ne all by (rule centroid_in_voxel)
    have "within_one_voxel V q p" if "p \<in> set (voxel_points V cloud k)" for p
      using assms cell all that by (auto intro: same_voxel_within)
    with ne q cell all show ?thesis
      by blast
  qed
  from run count near show ?thesis
    by blast
qed

theorem downsample_shrinks_within_voxel_witness:
  "(0::rat) < 1 / 10 \<and>
   downsample sample_cloud (1 / 10) =
     Inr [(1 / 40, 1 / 40, 3 / 80), (1, 1, 1), (- (1 / 20), 0, 0)] \<and>
   length ([(1 / 40, 1 / 40, 3 / 80), (1, 1, 1), (- (1 / 20), 0, 0)] :: PointCloud)
     \<le> length sample_cloud \<and>
   voxel_of (1 / 10) (1 / 40, 1 / 40, 3 / 80) = (0, 0, 0) \<and>
   within_one_voxel (1 / 10) (1 / 40, 1 / 40, 3 / 80) (1 / 20, 1 / 20, 3 / 40)"
proof -
  have V: "(0::rat) < 1 / 10"
    by simp
  from downsample_shrinks_within_voxel [OF V, of sample_cloud] obtain out
    where out: "downsample sample_cloud (1 / 10) = Inr out"
      and count: "length out \<le> length sample_cloud"
      and near: "\<forall>q\<in>set out. \<exists>k. voxel_points (1 / 10) sample_cloud k \<noteq> [] \<and>
              q = centroid (voxel_points (1 / 10) sample_cloud k) \<and>
              voxel_of (1 / 10) q = k \<and>
              (\<forall>p\<in>set (voxel_points (1 / 10) sample_cloud k).
                 voxel_of (1 / 10) p = k \<and> within_one_voxel (1 / 10) q p)"
    by blast
  from out have eq: "out = [(1 / 40, 1 / 40, 3 / 80), (1, 1, 1), (- (1 / 20), 0, 0)]"
    by (simp add: downsample_sample_cloud)
  have q: "(1 / 40, 1 / 40, 3 / 80) \<in> set out"
    by (simp add: eq)
  have p: "(1 / 20, 1 / 20, 3 / 40) \<in> set (voxel_points (1 / 10) sample_cloud (0, 0, 0))"
    by (simp add: voxel_points_def sample_cloud_def sample_voxels del: voxel_of.simps)
  from near q obtain k
    where k: "voxel_of (1 / 10) (1 / 40, 1 / 40, 3 / 80) = k"
      and all: "\<forall>p\<in>set (voxel_points (1 / 10) sample_cloud k).
                 within_one_voxel (1 / 10) (1 / 40, 1 / 40, 3 / 80) p"
    by blast
  from k have k0: "k = (0, 0, 0)"
    by (simp only: sample_voxels)
  from all p have close:
    "within_one_voxel (1 / 10) (1 / 40, 1 / 40, 3 / 80) (1 / 20, 1 / 20, 3 / 40)"
    unfolding k0 by blast
  from V downsample_sample_cloud count k close show ?thesis
    unfolding eq k0 by (intro conjI)
qed

end
